theory Spec2Isabelle
  imports Main "HOL-Library.Sublist"
begin

section \<open>Data model\<close>

text \<open>
  The documents of the application, as the types module declares them
  (\<^verbatim>\<open>User\<close>, \<^verbatim>\<open>Family\<close>, \<^verbatim>\<open>Post\<close>, \<^verbatim>\<open>Comment\<close>, \<^verbatim>\<open>Notification\<close>,
  \<^verbatim>\<open>FamilyRequest\<close>, \<^verbatim>\<open>AdminRequest\<close>). A property that the data-access code
  reads with \<^verbatim>\<open>?? default\<close> is an \<open>option\<close>: \<open>None\<close> stands for a property that
  is absent or \<^verbatim>\<open>null\<close>. The counter \<^verbatim>\<open>memberCount\<close> is an integer: nothing
  keeps \<^verbatim>\<open>increment(-1)\<close> from taking it below zero. Time stamps (\<^verbatim>\<open>serverTimestamp()\<close>, \<^verbatim>\<open>new Date()\<close>,
  \<^verbatim>\<open>Date.now()\<close>) are natural numbers handed to the operation by its caller,
  one for every place the source asks for the time; so is the identifier the
  backend chooses for a document created with \<^verbatim>\<open>addDoc\<close>.
\<close>

type_synonym timestamp = nat

datatype UserRole = Super_admin | Admin | Member

datatype RequestStatus = Pending | Approved | Rejected

datatype NotificationType = N_announcement | N_media | N_general

datatype PostType = P_announcement | P_discussion | P_prayer_request

record user =
  u_id :: string
  u_email :: string
  u_displayName :: string
  u_role :: UserRole
  u_phoneNumber :: "string option"
  u_familyId :: "string option"
  u_createdAt :: timestamp
  u_updatedAt :: "timestamp option"

record family =
  f_name :: "string option"
  f_description :: "string option"
  f_imageUrl :: "string option"
  f_memberCount :: int
  f_createdAt :: timestamp

record comment =
  c_id :: string
  c_authorId :: string
  c_authorName :: string
  c_content :: string
  c_createdAt :: timestamp

record post =
  p_familyId :: string
  p_authorId :: string
  p_authorName :: string
  p_content :: string
  p_type :: PostType
  p_createdAt :: timestamp
  p_likes :: "string list option"
  p_comments :: "comment list option"

record notification =
  n_familyId :: string
  n_title :: string
  n_message :: string
  n_type :: NotificationType
  n_isRead :: bool
  n_createdBy :: "string option"
  n_createdAt :: timestamp

record familyRequest =
  fr_requesterId :: string
  fr_requesterName :: string
  fr_familyName :: string
  fr_description :: string
  fr_status :: RequestStatus
  fr_createdAt :: timestamp
  fr_updatedAt :: timestamp
  fr_reviewedAt :: "timestamp option"

record adminRequest =
  ar_userId :: string
  ar_email :: string
  ar_displayName :: string
  ar_phoneNumber :: string
  ar_status :: RequestStatus
  ar_createdAt :: timestamp
  ar_reviewedAt :: "timestamp option"
  ar_reviewedBy :: "string option"

section \<open>The document store\<close>

text \<open>
  The backend is a record of collections, each a map from document identifier
  to document, together with the sequence of writes applied so far. The
  operations of the backend are modelled as far as the data-access module uses
  them, for one client at a time: \<^verbatim>\<open>getDoc\<close> reads, \<^verbatim>\<open>updateDoc\<close> merges
  properties into an existing document and fails when there is none,
  \<^verbatim>\<open>setDoc\<close> with \<^verbatim>\<open>merge\<close> creates or merges, \<^verbatim>\<open>addDoc\<close> creates under a new
  identifier, \<^verbatim>\<open>deleteDoc\<close> removes. \<^verbatim>\<open>addDoc\<close> and \<^verbatim>\<open>setDoc\<close> refuse,
  before they write, a document with a property whose value is \<^verbatim>\<open>undefined\<close>
  (the store is opened with its default settings); of the documents the module
  writes, only the one of \<^verbatim>\<open>createFamily\<close> is built from properties the caller
  may have left \<^verbatim>\<open>undefined\<close>. Network failures are not modelled.
  Identifiers of documents are non-empty strings in the backend; the model
  does not reject the empty one.
\<close>

datatype coll = Users | Families | Posts | Notifications | FamilyRequests | AdminRequests

datatype store_write =
    W_set coll string
  | W_add coll string
  | W_update coll string "string list"
  | W_delete coll string

record store =
  users :: "string \<rightharpoonup> user"
  families :: "string \<rightharpoonup> family"
  posts :: "string \<rightharpoonup> post"
  notifications :: "string \<rightharpoonup> notification"
  familyRequests :: "string \<rightharpoonup> familyRequest"
  adminRequests :: "string \<rightharpoonup> adminRequest"
  writes :: "store_write list"

datatype error =
    User_not_found
  | Post_not_found
  | Request_not_found
  | Admin_request_not_found
  | No_document coll string
  | Invalid_argument coll

text \<open>
  An operation takes the store and returns its outcome, an error or a value,
  with the store it leaves behind: a write made before an exception stays made.
\<close>

type_synonym 'a io = "store \<Rightarrow> (error + 'a) \<times> store"

definition ok :: "'a \<Rightarrow> 'a io" where
  "ok x s = (Inr x, s)"

definition throw :: "error \<Rightarrow> 'a io" where
  "throw e s = (Inl e, s)"

definition andThen :: "'a io \<Rightarrow> ('a \<Rightarrow> 'b io) \<Rightarrow> 'b io" where
  "andThen m k s = (case m s of (Inl e, s') \<Rightarrow> (Inl e, s') | (Inr x, s') \<Rightarrow> k x s')"

text \<open>\<^verbatim>\<open>try { await m } catch (e) { console.warn(e) }\<close>\<close>

definition tryCatch :: "'a io \<Rightarrow> unit io" where
  "tryCatch m s = (case m s of (r, s') \<Rightarrow> (Inr (), s'))"

text \<open>JavaScript's truth value of a \<^verbatim>\<open>string | null\<close>.\<close>

definition truthy :: "string option \<Rightarrow> bool" where
  "truthy v = (case v of None \<Rightarrow> False | Some x \<Rightarrow> x \<noteq> [])"

definition getDoc_users :: "string \<Rightarrow> user option io" where
  "getDoc_users i s = (Inr (users s i), s)"

definition updateDoc_users :: "string \<Rightarrow> string list \<Rightarrow> (user \<Rightarrow> user) \<Rightarrow> unit io" where
  "updateDoc_users i props upd s =
     (case users s i of
        None \<Rightarrow> (Inl (No_document Users i), s)
      | Some d \<Rightarrow> (Inr (), s\<lparr>users := (users s)(i \<mapsto> upd d),
                             writes := writes s @ [W_update Users i props]\<rparr>))"

definition setDoc_users_merge :: "string \<Rightarrow> user \<Rightarrow> (user \<Rightarrow> user) \<Rightarrow> unit io" where
  \<comment> \<open>\<open>fresh\<close> is the document written when there is none, \<open>upd\<close> the merge into an old one\<close>
  "setDoc_users_merge i fresh upd s =
     (Inr (), s\<lparr>users := (users s)(i \<mapsto> (case users s i of None \<Rightarrow> fresh | Some d \<Rightarrow> upd d)),
                writes := writes s @ [W_set Users i]\<rparr>)"

definition deleteDoc_users :: "string \<Rightarrow> unit io" where
  "deleteDoc_users i s =
     (Inr (), s\<lparr>users := (users s)(i := None), writes := writes s @ [W_delete Users i]\<rparr>)"

definition updateDoc_families :: "string \<Rightarrow> string list \<Rightarrow> (family \<Rightarrow> family) \<Rightarrow> unit io" where
  "updateDoc_families i props upd s =
     (case families s i of
        None \<Rightarrow> (Inl (No_document Families i), s)
      | Some d \<Rightarrow> (Inr (), s\<lparr>families := (families s)(i \<mapsto> upd d),
                             writes := writes s @ [W_update Families i props]\<rparr>))"

text \<open>\<^verbatim>\<open>{ memberCount: increment(n) }\<close>\<close>

definition increment_memberCount :: "int \<Rightarrow> family \<Rightarrow> family" where
  "increment_memberCount n f = f\<lparr>f_memberCount := f_memberCount f + n\<rparr>"

definition addDoc_notifications :: "string \<Rightarrow> notification \<Rightarrow> string io" where
  "addDoc_notifications newId d s =
     (Inr newId, s\<lparr>notifications := (notifications s)(newId \<mapsto> d),
                  writes := writes s @ [W_add Notifications newId]\<rparr>)"

section \<open>Notifications\<close>

record notificationData =
  nd_familyId :: string
  nd_title :: string
  nd_message :: string
  nd_type :: NotificationType
  nd_isRead :: bool
  nd_createdBy :: "string option"

definition createNotification :: "notificationData \<Rightarrow> string \<Rightarrow> timestamp \<Rightarrow> string io" where
  "createNotification notif newId now =
     addDoc_notifications newId
       \<lparr>n_familyId = nd_familyId notif, n_title = nd_title notif,
        n_message = nd_message notif, n_type = nd_type notif,
        n_isRead = nd_isRead notif, n_createdBy = nd_createdBy notif,
        n_createdAt = now\<rparr>"

section \<open>Users\<close>

text \<open>The \<^verbatim>\<open>Partial<User>\<close> that \<^verbatim>\<open>createUserProfile\<close> receives.\<close>

record userData =
  ud_email :: "string option"
  ud_displayName :: "string option"
  ud_role :: "UserRole option"
  ud_phoneNumber :: "string option"
  ud_familyId :: "string option"

definition orElse :: "'a option \<Rightarrow> 'a \<Rightarrow> 'a" where
  "orElse v d = (case v of None \<Rightarrow> d | Some x \<Rightarrow> x)"

definition createUserProfile ::
  "string \<Rightarrow> userData \<Rightarrow> timestamp \<Rightarrow> string \<Rightarrow> timestamp \<Rightarrow> user io" where
  "createUserProfile userId data now notifId notifNow =
     (let payload =
            \<lparr>u_id = userId,
             u_email = orElse (ud_email data) [],
             u_displayName = orElse (ud_displayName data) [],
             u_role = orElse (ud_role data) Member,
             u_phoneNumber = Some (orElse (ud_phoneNumber data) []),
             u_familyId = ud_familyId data,
             u_createdAt = now,
             u_updatedAt = None\<rparr>
      in andThen (setDoc_users_merge userId payload
                    (\<lambda>d. payload\<lparr>u_updatedAt := u_updatedAt d\<rparr>)) (\<lambda>_.
         andThen (case u_familyId payload of
                    None \<Rightarrow> ok ()
                  | Some fam \<Rightarrow>
                      if fam \<noteq> [] then
                        andThen (tryCatch (updateDoc_families fam [''memberCount'']
                                             (increment_memberCount 1))) (\<lambda>_.
                        tryCatch (createNotification
                          \<lparr>nd_familyId = fam, nd_title = ''New Member'',
                           nd_message =
                             (if u_displayName payload \<noteq> [] then u_displayName payload
                              else u_email payload) @ '' joined the family'',
                           nd_type = N_general, nd_isRead = False,
                           nd_createdBy = Some userId\<rparr> notifId notifNow))
                      else ok ()) (\<lambda>_.
         ok payload)))"

definition updateUserFamily ::
  "string \<Rightarrow> string option \<Rightarrow> timestamp \<Rightarrow> string \<Rightarrow> timestamp \<Rightarrow> unit io" where
  "updateUserFamily userId newFamilyId now notifId notifNow =
     andThen (getDoc_users userId) (\<lambda>snap.
       case snap of
         None \<Rightarrow> throw User_not_found
       | Some d \<Rightarrow>
           (let prevFamilyId = u_familyId d in
            andThen (updateDoc_users userId [''familyId'', ''updatedAt'']
                       (\<lambda>u. u\<lparr>u_familyId := newFamilyId, u_updatedAt := Some now\<rparr>)) (\<lambda>_.
            andThen (case prevFamilyId of
                       None \<Rightarrow> ok ()
                     | Some prev \<Rightarrow>
                         if prev \<noteq> [] \<and> prevFamilyId \<noteq> newFamilyId then
                           tryCatch (updateDoc_families prev [''memberCount'']
                                       (increment_memberCount (- 1)))
                         else ok ()) (\<lambda>_.
            (case newFamilyId of
               None \<Rightarrow> ok ()
             | Some new \<Rightarrow>
                 if new \<noteq> [] \<and> prevFamilyId \<noteq> newFamilyId then
                   andThen (tryCatch (updateDoc_families new [''memberCount'']
                                        (increment_memberCount 1))) (\<lambda>_.
                   tryCatch (createNotification
                     \<lparr>nd_familyId = new, nd_title = ''New Member'',
                      nd_message = ''A new member has joined the family!'',
                      nd_type = N_general, nd_isRead = False,
                      nd_createdBy = Some userId\<rparr> notifId notifNow))
                 else ok ())))))"

definition deleteUser :: "string \<Rightarrow> unit io" where
  "deleteUser userId =
     andThen (getDoc_users userId) (\<lambda>u.
     andThen (case u of
                None \<Rightarrow> ok ()
              | Some d \<Rightarrow>
                  (case u_familyId d of
                     None \<Rightarrow> ok ()
                   | Some fam \<Rightarrow>
                       if fam \<noteq> [] then
                         tryCatch (updateDoc_families fam [''memberCount'']
                                     (increment_memberCount (- 1)))
                       else ok ())) (\<lambda>_.
     deleteDoc_users userId))"

definition promoteToAdmin :: "string \<Rightarrow> timestamp \<Rightarrow> unit io" where
  "promoteToAdmin userId now =
     updateDoc_users userId [''role'', ''updatedAt'']
       (\<lambda>u. u\<lparr>u_role := Admin, u_updatedAt := Some now\<rparr>)"

definition demoteFromAdmin :: "string \<Rightarrow> timestamp \<Rightarrow> unit io" where
  "demoteFromAdmin userId now =
     updateDoc_users userId [''role'', ''updatedAt'']
       (\<lambda>u. u\<lparr>u_role := Member, u_updatedAt := Some now\<rparr>)"

definition removeMemberFromFamily :: "string \<Rightarrow> timestamp \<Rightarrow> string \<Rightarrow> timestamp \<Rightarrow> unit io" where
  "removeMemberFromFamily userId now notifId notifNow =
     updateUserFamily userId None now notifId notifNow"

section \<open>Families\<close>

text \<open>
  A property of a JavaScript object handed to the module: not there, there with
  the value \<^verbatim>\<open>undefined\<close>, or there with a value.
\<close>

datatype 'a property = Absent | Undefined | Defined 'a

text \<open>
  The argument of \<^verbatim>\<open>createFamily\<close>, a \<^verbatim>\<open>Partial<Family>\<close> that may carry an
  \<^verbatim>\<open>id\<close>. Its \<^verbatim>\<open>createdAt\<close> is always overwritten and is left out.
\<close>

record familyData =
  fd_id :: "string property"
  fd_name :: "string property"
  fd_description :: "string property"
  fd_imageUrl :: "string property"
  fd_memberCount :: "int property"

text \<open>
  The object \<^verbatim>\<open>createFamily\<close> writes:
  \<^verbatim>\<open>{ ...data, memberCount: data.memberCount ?? 0, createdAt: serverTimestamp() }\<close>.
\<close>

record familyPayload =
  fp_id :: "string property"
  fp_name :: "string property"
  fp_description :: "string property"
  fp_imageUrl :: "string property"
  fp_memberCount :: int
  fp_createdAt :: timestamp

definition hasUndefined :: "familyPayload \<Rightarrow> bool" where
  "hasUndefined p \<longleftrightarrow>
     fp_id p = Undefined \<or> fp_name p = Undefined \<or>
     fp_description p = Undefined \<or> fp_imageUrl p = Undefined"

text \<open>\<^verbatim>\<open>v ?? d\<close> on a property, and the property as a document holds it.\<close>

fun propertyOr :: "'a property \<Rightarrow> 'a \<Rightarrow> 'a" where
  "propertyOr (Defined x) d = x"
| "propertyOr Absent d = d"
| "propertyOr Undefined d = d"

fun stored :: "'a property \<Rightarrow> 'a option" where
  "stored (Defined x) = Some x"
| "stored Absent = None"
| "stored Undefined = None"

fun merged :: "'a property \<Rightarrow> 'a option \<Rightarrow> 'a option" where
  "merged (Defined x) old = Some x"
| "merged Absent old = old"
| "merged Undefined old = old"

definition setDoc_families_merge :: "string \<Rightarrow> familyPayload \<Rightarrow> unit io" where
  "setDoc_families_merge i p s =
     (if hasUndefined p then (Inl (Invalid_argument Families), s)
      else
        (Inr (),
         s\<lparr>families := (families s)(i \<mapsto>
              (case families s i of
                 None \<Rightarrow>
                   \<lparr>f_name = stored (fp_name p), f_description = stored (fp_description p),
                    f_imageUrl = stored (fp_imageUrl p), f_memberCount = fp_memberCount p,
                    f_createdAt = fp_createdAt p\<rparr>
               | Some d \<Rightarrow>
                   \<lparr>f_name = merged (fp_name p) (f_name d),
                    f_description = merged (fp_description p) (f_description d),
                    f_imageUrl = merged (fp_imageUrl p) (f_imageUrl d),
                    f_memberCount = fp_memberCount p,
                    f_createdAt = fp_createdAt p\<rparr>)),
           writes := writes s @ [W_set Families i]\<rparr>))"

definition addDoc_families :: "string \<Rightarrow> familyPayload \<Rightarrow> string io" where
  "addDoc_families newId p s =
     (if hasUndefined p then (Inl (Invalid_argument Families), s)
      else
        (Inr newId,
         s\<lparr>families := (families s)(newId \<mapsto>
              \<lparr>f_name = stored (fp_name p), f_description = stored (fp_description p),
               f_imageUrl = stored (fp_imageUrl p), f_memberCount = fp_memberCount p,
               f_createdAt = fp_createdAt p\<rparr>),
           writes := writes s @ [W_add Families newId]\<rparr>))"

definition createFamily :: "familyData \<Rightarrow> string \<Rightarrow> timestamp \<Rightarrow> string io" where
  "createFamily data newId now =
     (let id = stored (fd_id data);
          payload =
            \<lparr>fp_id = fd_id data, fp_name = fd_name data,
             fp_description = fd_description data, fp_imageUrl = fd_imageUrl data,
             fp_memberCount = propertyOr (fd_memberCount data) 0,
             fp_createdAt = now\<rparr>
      in case id of
           None \<Rightarrow> addDoc_families newId payload
         | Some i \<Rightarrow>
             if i \<noteq> [] then andThen (setDoc_families_merge i payload) (\<lambda>_. ok i)
             else addDoc_families newId payload)"

section \<open>Posts\<close>

definition getDoc_posts :: "string \<Rightarrow> post option io" where
  "getDoc_posts i s = (Inr (posts s i), s)"

definition updateDoc_posts :: "string \<Rightarrow> string list \<Rightarrow> (post \<Rightarrow> post) \<Rightarrow> unit io" where
  "updateDoc_posts i props upd s =
     (case posts s i of
        None \<Rightarrow> (Inl (No_document Posts i), s)
      | Some d \<Rightarrow> (Inr (), s\<lparr>posts := (posts s)(i \<mapsto> upd d),
                             writes := writes s @ [W_update Posts i props]\<rparr>))"

definition likePost :: "string \<Rightarrow> string \<Rightarrow> unit io" where
  "likePost postId userId =
     andThen (getDoc_posts postId) (\<lambda>snap.
       case snap of
         None \<Rightarrow> throw Post_not_found
       | Some post \<Rightarrow>
           (let likes = orElse (p_likes post) [] in
            if userId \<notin> set likes then
              updateDoc_posts postId [''likes''] (\<lambda>p. p\<lparr>p_likes := Some (likes @ [userId])\<rparr>)
            else ok ()))"

definition unlikePost :: "string \<Rightarrow> string \<Rightarrow> unit io" where
  "unlikePost postId userId =
     andThen (getDoc_posts postId) (\<lambda>snap.
       case snap of
         None \<Rightarrow> throw Post_not_found
       | Some post \<Rightarrow>
           (let likes = filter (\<lambda>uid. uid \<noteq> userId) (orElse (p_likes post) []) in
            updateDoc_posts postId [''likes''] (\<lambda>p. p\<lparr>p_likes := Some likes\<rparr>)))"

text \<open>The decimal numeral of a clock value, as the template \<^verbatim>\<open>`${Date.now()}`\<close> prints it.\<close>

fun string_of_nat :: "nat \<Rightarrow> string" where
  "string_of_nat n =
     (if n < 10 then [char_of (48 + n)]
      else string_of_nat (n div 10) @ [char_of (48 + n mod 10)])"

declare string_of_nat.simps [simp del]

record commentData =
  cd_authorId :: string
  cd_authorName :: string
  cd_content :: string

definition addComment :: "string \<Rightarrow> commentData \<Rightarrow> nat \<Rightarrow> timestamp \<Rightarrow> unit io" where
  \<comment> \<open>\<open>dateNow\<close> is what \<^verbatim>\<open>Date.now()\<close> returns, \<open>created\<close> what \<^verbatim>\<open>new Date()\<close> does\<close>
  "addComment postId cmt dateNow created =
     andThen (getDoc_posts postId) (\<lambda>snap.
       case snap of
         None \<Rightarrow> throw Post_not_found
       | Some post \<Rightarrow>
           (let comments = orElse (p_comments post) [];
                newComment =
                  \<lparr>c_id = string_of_nat dateNow, c_authorId = cd_authorId cmt,
                   c_authorName = cd_authorName cmt, c_content = cd_content cmt,
                   c_createdAt = created\<rparr>
            in updateDoc_posts postId [''comments'']
                 (\<lambda>p. p\<lparr>p_comments := Some (comments @ [newComment])\<rparr>)))"

definition deleteComment :: "string \<Rightarrow> string \<Rightarrow> unit io" where
  "deleteComment postId commentId =
     andThen (getDoc_posts postId) (\<lambda>snap.
       case snap of
         None \<Rightarrow> throw Post_not_found
       | Some post \<Rightarrow>
           (let comments = filter (\<lambda>c. c_id c \<noteq> commentId) (orElse (p_comments post) []) in
            updateDoc_posts postId [''comments''] (\<lambda>p. p\<lparr>p_comments := Some comments\<rparr>)))"

section \<open>Family requests\<close>

definition getDoc_familyRequests :: "string \<Rightarrow> familyRequest option io" where
  "getDoc_familyRequests i s = (Inr (familyRequests s i), s)"

definition updateDoc_familyRequests ::
  "string \<Rightarrow> string list \<Rightarrow> (familyRequest \<Rightarrow> familyRequest) \<Rightarrow> unit io" where
  "updateDoc_familyRequests i props upd s =
     (case familyRequests s i of
        None \<Rightarrow> (Inl (No_document FamilyRequests i), s)
      | Some d \<Rightarrow> (Inr (), s\<lparr>familyRequests := (familyRequests s)(i \<mapsto> upd d),
                             writes := writes s @ [W_update FamilyRequests i props]\<rparr>))"

text \<open>
  \<^verbatim>\<open>reqDoc.data() as any\<close> handed to \<^verbatim>\<open>createFamily\<close>: a request document has no
  property \<^verbatim>\<open>id\<close>, \<^verbatim>\<open>name\<close>, \<^verbatim>\<open>imageUrl\<close> or \<^verbatim>\<open>memberCount\<close>; its
  \<^verbatim>\<open>description\<close> is the one property it shares with a \<^verbatim>\<open>Family\<close>. The
  properties that \<^verbatim>\<open>Family\<close> does not declare (\<^verbatim>\<open>familyName\<close>, \<^verbatim>\<open>requesterId\<close>,
  \<^verbatim>\<open>requesterName\<close>, \<^verbatim>\<open>status\<close>, \<^verbatim>\<open>updatedAt\<close>) travel with the spread into the
  new document and are not represented in the record \<open>family\<close>. A document
  read from the store has no property with the value \<^verbatim>\<open>undefined\<close>.
\<close>

definition requestDataAsFamilyData :: "familyRequest \<Rightarrow> familyData" where
  "requestDataAsFamilyData r =
     \<lparr>fd_id = Absent, fd_name = Absent, fd_description = Defined (fr_description r),
      fd_imageUrl = Absent, fd_memberCount = Absent\<rparr>"

definition approveFamilyRequest ::
  "string \<Rightarrow> familyData option \<Rightarrow> timestamp \<Rightarrow> string \<Rightarrow> timestamp \<Rightarrow> unit io" where
  "approveFamilyRequest requestId familyData reviewed newId now =
     andThen (getDoc_familyRequests requestId) (\<lambda>reqDoc.
       case reqDoc of
         None \<Rightarrow> throw Request_not_found
       | Some r \<Rightarrow>
           andThen (updateDoc_familyRequests requestId [''status'', ''reviewedAt'']
                      (\<lambda>d. d\<lparr>fr_status := Approved, fr_reviewedAt := Some reviewed\<rparr>)) (\<lambda>_.
           (let payload = (case familyData of None \<Rightarrow> requestDataAsFamilyData r
                           | Some fd \<Rightarrow> fd)
            in andThen (createFamily payload newId now) (\<lambda>_. ok ()))))"

definition rejectFamilyRequest :: "string \<Rightarrow> timestamp \<Rightarrow> unit io" where
  "rejectFamilyRequest requestId reviewed =
     updateDoc_familyRequests requestId [''status'', ''reviewedAt'']
       (\<lambda>d. d\<lparr>fr_status := Rejected, fr_reviewedAt := Some reviewed\<rparr>)"

section \<open>Admin requests\<close>

definition getDoc_adminRequests :: "string \<Rightarrow> adminRequest option io" where
  "getDoc_adminRequests i s = (Inr (adminRequests s i), s)"

definition updateDoc_adminRequests ::
  "string \<Rightarrow> string list \<Rightarrow> (adminRequest \<Rightarrow> adminRequest) \<Rightarrow> unit io" where
  "updateDoc_adminRequests i props upd s =
     (case adminRequests s i of
        None \<Rightarrow> (Inl (No_document AdminRequests i), s)
      | Some d \<Rightarrow> (Inr (), s\<lparr>adminRequests := (adminRequests s)(i \<mapsto> upd d),
                             writes := writes s @ [W_update AdminRequests i props]\<rparr>))"

text \<open>The parameter \<^verbatim>\<open>status: 'approved' | 'rejected'\<close>.\<close>

datatype ReviewDecision = R_approved | R_rejected

fun decisionStatus :: "ReviewDecision \<Rightarrow> RequestStatus" where
  "decisionStatus R_approved = Approved"
| "decisionStatus R_rejected = Rejected"

definition reviewAdminRequest ::
  "string \<Rightarrow> ReviewDecision \<Rightarrow> string \<Rightarrow> timestamp \<Rightarrow> timestamp \<Rightarrow> unit io" where
  "reviewAdminRequest requestId status reviewerId reviewed now =
     andThen (getDoc_adminRequests requestId) (\<lambda>request.
       case request of
         None \<Rightarrow> throw Admin_request_not_found
       | Some requestData \<Rightarrow>
           andThen (updateDoc_adminRequests requestId [''status'', ''reviewedAt'', ''reviewedBy'']
                      (\<lambda>d. d\<lparr>ar_status := decisionStatus status,
                              ar_reviewedAt := Some reviewed,
                              ar_reviewedBy := Some reviewerId\<rparr>)) (\<lambda>_.
           if status = R_approved then
             updateDoc_users (ar_userId requestData) [''role'', ''updatedAt'']
               (\<lambda>u. u\<lparr>u_role := Admin, u_updatedAt := Some now\<rparr>)
           else ok ()))"

section \<open>Signing up and choosing a family\<close>

text \<open>
  \<^verbatim>\<open>signup\<close> of the authentication context: \<open>uid\<close> and \<open>email\<close> are what the
  identity provider returns for the new account. The arguments have the types
  the function declares; the \<open>familyId\<close> it stores depends on none of them.
\<close>

definition signup ::
  "string \<Rightarrow> string \<Rightarrow> string \<Rightarrow> bool \<Rightarrow> timestamp \<Rightarrow> string \<Rightarrow> timestamp \<Rightarrow> user io" where
  "signup uid email displayName isAdmin now notifId notifNow =
     createUserProfile uid
       \<lparr>ud_email = Some email, ud_displayName = Some displayName,
        ud_role = Some (if isAdmin then Admin else Member),
        ud_phoneNumber = None, ud_familyId = Some []\<rparr>
       now notifId notifNow"

text \<open>
  \<^verbatim>\<open>handleJoinFamily\<close> of the family selection screen, for the signed-in user
  \<open>uid\<close>: \<^verbatim>\<open>if (selectedFamily && currentUser) await updateUserFamily(selectedFamily)\<close>.
\<close>

definition handleJoinFamily ::
  "string \<Rightarrow> string \<Rightarrow> timestamp \<Rightarrow> string \<Rightarrow> timestamp \<Rightarrow> unit io" where
  "handleJoinFamily uid selectedFamily now notifId notifNow =
     (if selectedFamily \<noteq> [] then updateUserFamily uid (Some selectedFamily) now notifId notifNow
      else ok ())"

section \<open>A small store to evaluate on\<close>

definition alice :: user where
  "alice = \<lparr>u_id = ''alice'', u_email = ''alice@example.org'', u_displayName = ''Alice'',
            u_role = Member, u_phoneNumber = Some [], u_familyId = Some ''grace'',
            u_createdAt = 1, u_updatedAt = None\<rparr>"

definition bob :: user where
  "bob = \<lparr>u_id = ''bob'', u_email = ''bob@example.org'', u_displayName = ''Bob'',
          u_role = Member, u_phoneNumber = Some [], u_familyId = Some [],
          u_createdAt = 2, u_updatedAt = None\<rparr>"

definition grace :: family where
  "grace = \<lparr>f_name = Some ''Grace Family'', f_description = Some ''Living by grace'',
            f_imageUrl = None, f_memberCount = 1, f_createdAt = 0\<rparr>"

definition hope :: family where
  "hope = \<lparr>f_name = Some ''Hope Family'', f_description = Some ''Anchored in hope'',
           f_imageUrl = None, f_memberCount = 0, f_createdAt = 0\<rparr>"

definition church :: store where
  "church = \<lparr>users = [''alice'' \<mapsto> alice, ''bob'' \<mapsto> bob],
             families = [''grace'' \<mapsto> grace, ''hope'' \<mapsto> hope],
             posts = Map.empty, notifications = Map.empty,
             familyRequests = Map.empty, adminRequests = Map.empty, writes = []\<rparr>"

definition greeting :: post where
  "greeting = \<lparr>p_familyId = ''grace'', p_authorId = ''alice'', p_authorName = ''Alice'',
              p_content = ''Welcome'', p_type = P_discussion, p_createdAt = 3,
              p_likes = Some [''bob''],
              p_comments = Some
                [\<lparr>c_id = ''1700'', c_authorId = ''bob'', c_authorName = ''Bob'',
                  c_content = ''Amen'', c_createdAt = 4\<rparr>,
                 \<lparr>c_id = ''1701'', c_authorId = ''alice'', c_authorName = ''Alice'',
                  c_content = ''Thanks'', c_createdAt = 5\<rparr>,
                 \<lparr>c_id = ''1700'', c_authorId = ''alice'', c_authorName = ''Alice'',
                  c_content = ''Bless you'', c_createdAt = 4\<rparr>]\<rparr>"

definition petition :: familyRequest where
  "petition = \<lparr>fr_requesterId = ''bob'', fr_requesterName = ''Bob'',
               fr_familyName = ''Joy Family'', fr_description = ''Rejoicing always'',
               fr_status = Pending, fr_createdAt = 4, fr_updatedAt = 4,
               fr_reviewedAt = None\<rparr>"


text \<open>
  The overrides as the two dashboards build them for this request:
  \<^verbatim>\<open>{ name: req.familyName, description: req.description || '', imageUrl: undefined,
  memberCount: 0, createdAt: new Date() }\<close>.
\<close>

definition joy_as_sent :: familyData where
  "joy_as_sent = \<lparr>fd_id = Absent, fd_name = Defined ''Joy Family'',
                  fd_description = Defined ''Rejoicing always'', fd_imageUrl = Undefined,
                  fd_memberCount = Defined 0\<rparr>"

definition application :: adminRequest where
  "application = \<lparr>ar_userId = ''bob'', ar_email = ''bob@example.org'',
                  ar_displayName = ''Bob'', ar_phoneNumber = ''555'',
                  ar_status = Pending, ar_createdAt = 4, ar_reviewedAt = None,
                  ar_reviewedBy = None\<rparr>"

definition office :: store where
  "office = \<lparr>users = [''alice'' \<mapsto> alice, ''bob'' \<mapsto> bob],
             families = [''grace'' \<mapsto> grace, ''hope'' \<mapsto> hope],
             posts = [''p1'' \<mapsto> greeting], notifications = Map.empty,
             familyRequests = [''r1'' \<mapsto> petition],
             adminRequests = [''a1'' \<mapsto> application], writes = []\<rparr>"


definition office_reviewed :: store where
  "office_reviewed = snd (reviewAdminRequest ''a1'' R_rejected ''super_admin'' 9 10 office)"

text \<open>Carol signs up as a member.\<close>

definition church_signed :: store where
  "church_signed =
     snd (signup ''carol'' ''carol@example.org'' ''Carol'' False 9 ''n9'' 10 church)"

section \<open>Derived notions\<close>

definition likesOf :: "store \<Rightarrow> string \<Rightarrow> string list" where
  "likesOf s postId = (case posts s postId of None \<Rightarrow> [] | Some p \<Rightarrow> orElse (p_likes p) [])"

definition commentsOf :: "store \<Rightarrow> string \<Rightarrow> comment list" where
  "commentsOf s postId =
     (case posts s postId of None \<Rightarrow> [] | Some p \<Rightarrow> orElse (p_comments p) [])"

definition sameButLikes :: "post \<Rightarrow> post \<Rightarrow> bool" where
  "sameButLikes p q \<longleftrightarrow>
     p_familyId q = p_familyId p \<and> p_authorId q = p_authorId p \<and>
     p_authorName q = p_authorName p \<and> p_content q = p_content p \<and>
     p_type q = p_type p \<and> p_createdAt q = p_createdAt p \<and>
     p_comments q = p_comments p"

text \<open>
  A user's \<open>familyId\<close> is unassigned (\<^verbatim>\<open>null\<close>, absent, or the empty string that
  \<open>signup\<close> stores and every reader treats as false) or names a family of the store.
\<close>

definition unassignedOrExisting :: "store \<Rightarrow> user \<Rightarrow> bool" where
  "unassignedOrExisting s u =
     (case u_familyId u of None \<Rightarrow> True | Some F \<Rightarrow> F = [] \<or> families s F \<noteq> None)"

definition familyInvariant :: "store \<Rightarrow> bool" where
  "familyInvariant s \<longleftrightarrow>
     (\<forall>uid u. users s uid = Some u \<longrightarrow> u_role u = Member \<or> u_role u = Admin \<longrightarrow>
        unassignedOrExisting s u)"

text \<open>
  The three operations of the claim as actions on the store. The selection
  screen offers the families it has read from the store, so a join is offered
  for a family that exists.
\<close>

datatype action =
    Signup string string string bool timestamp string timestamp
  | JoinFamily string string timestamp string timestamp
  | RemoveMember string timestamp string timestamp

fun perform :: "action \<Rightarrow> store \<Rightarrow> store" where
  "perform (Signup uid email displayName isAdmin now nid nnow) s =
     snd (signup uid email displayName isAdmin now nid nnow s)"
| "perform (JoinFamily uid F now nid nnow) s = snd (handleJoinFamily uid F now nid nnow s)"
| "perform (RemoveMember uid now nid nnow) s = snd (removeMemberFromFamily uid now nid nnow s)"

fun offered :: "action \<Rightarrow> store \<Rightarrow> bool" where
  "offered (JoinFamily uid F now nid nnow) s = (families s F \<noteq> None)"
| "offered a s = True"

fun performAll :: "action list \<Rightarrow> store \<Rightarrow> store option" where
  "performAll [] s = Some s"
| "performAll (a # as) s = (if offered a s then performAll as (perform a s) else None)"

text \<open>Carol signs up and joins Hope; Alice is removed from her family.\<close>

definition story :: "action list" where
  "story = [Signup ''carol'' ''carol@example.org'' ''Carol'' False 9 ''n9'' 10,
            JoinFamily ''carol'' ''hope'' 11 ''n11'' 12,
            RemoveMember ''alice'' 13 ''n13'' 14]"

definition church_later :: store where
  "church_later =
     perform (RemoveMember ''alice'' 13 ''n13'' 14)
       (perform (JoinFamily ''carol'' ''hope'' 11 ''n11'' 12)
          (perform (Signup ''carol'' ''carol@example.org'' ''Carol'' False 9 ''n9'' 10) church))"

section \<open>Family membership\<close>

lemmas io_defs = ok_def throw_def andThen_def tryCatch_def truthy_def orElse_def
  getDoc_users_def updateDoc_users_def setDoc_users_merge_def deleteDoc_users_def
  updateDoc_families_def increment_memberCount_def addDoc_notifications_def
  createNotification_def setDoc_families_merge_def addDoc_families_def hasUndefined_def
  getDoc_posts_def updateDoc_posts_def getDoc_familyRequests_def
  updateDoc_familyRequests_def getDoc_adminRequests_def updateDoc_adminRequests_def

text \<open>
  C1. A user \<open>U\<close> of family \<open>F1\<close> who joins another family \<open>F2\<close>: the call
  succeeds, the user's \<open>familyId\<close> is \<open>F2\<close>, the counter of \<open>F1\<close> goes down by
  exactly one, the counter of \<open>F2\<close> up by exactly one, no other family changes,
  and exactly one notification, of type \<open>general\<close> and addressed to \<open>F2\<close>, is
  created (under the identifier \<open>nid\<close> the backend chose, not in use before).
\<close>

theorem updateUserFamily_moves_member:
  assumes "users s U = Some u" and "u_familyId u = Some F1"
    and "F1 \<noteq> []" and "families s F1 = Some f1"
    and "F2 \<noteq> []" and "families s F2 = Some f2"
    and "F1 \<noteq> F2" and "notifications s nid = None"
  shows "let r = updateUserFamily U (Some F2) now nid nnow s; s' = snd r in
           fst r = Inr () \<and>
           users s' U = Some (u\<lparr>u_familyId := Some F2, u_updatedAt := Some now\<rparr>) \<and>
           families s' F1 = Some (f1\<lparr>f_memberCount := f_memberCount f1 - 1\<rparr>) \<and>
           families s' F2 = Some (f2\<lparr>f_memberCount := f_memberCount f2 + 1\<rparr>) \<and>
           (\<forall>F. F \<noteq> F1 \<longrightarrow> F \<noteq> F2 \<longrightarrow> families s' F = families s F) \<and>
           (\<exists>n. notifications s' = (notifications s)(nid \<mapsto> n) \<and>
                n_type n = N_general \<and> n_familyId n = F2) \<and>
           dom (notifications s') - dom (notifications s) = {nid} \<and>
           writes s' = writes s @
             [W_update Users U [''familyId'', ''updatedAt''],
              W_update Families F1 [''memberCount''],
              W_update Families F2 [''memberCount''],
              W_add Notifications nid]"
  using assms by (auto simp: updateUserFamily_def io_defs Let_def)

theorem updateUserFamily_moves_member_witness:
  "let s' = snd (updateUserFamily ''alice'' (Some ''hope'') 7 ''n1'' 8 church) in
     map_option u_familyId (users s' ''alice'') = Some (Some ''hope'') \<and>
     map_option f_memberCount (families s' ''grace'') = Some 0 \<and>
     map_option f_memberCount (families s' ''hope'') = Some 1 \<and>
     map_option n_type (notifications s' ''n1'') = Some N_general"
  using updateUserFamily_moves_member [of church "''alice''" alice "''grace''" grace
          "''hope''" hope "''n1''" 7 8]
  by (simp add: church_def alice_def grace_def hope_def Let_def updateUserFamily_def io_defs)

lemma updateUserFamily_no_user:
  "users s U = None \<Longrightarrow> updateUserFamily U F now nid nnow s = (Inl User_not_found, s)"
  by (simp add: updateUserFamily_def io_defs)

lemma updateUserFamily_same:
  "users s U = Some u \<Longrightarrow> u_familyId u = F \<Longrightarrow>
   updateUserFamily U F now nid nnow s =
     (Inr (), s\<lparr>users := (users s)(U \<mapsto> u\<lparr>u_familyId := F, u_updatedAt := Some now\<rparr>),
                writes := writes s @ [W_update Users U [''familyId'', ''updatedAt'']]\<rparr>)"
  by (cases F) (simp_all add: updateUserFamily_def io_defs Let_def)

lemma updateUserFamily_user:
  "users s U = Some u \<Longrightarrow>
   users (snd (updateUserFamily U F now nid nnow s)) U =
     Some (u\<lparr>u_familyId := F, u_updatedAt := Some now\<rparr>)"
  by (cases F; cases "u_familyId u")
     (simp_all add: updateUserFamily_def io_defs Let_def split: option.splits)

lemma updateUserFamily_joined_count:
  assumes "users s U = Some u" and "families s G = Some g"
  shows "\<exists>g1. families (snd (updateUserFamily U (Some G) now nid nnow s)) G = Some g1 \<and>
           (f_memberCount g1 = f_memberCount g \<or> f_memberCount g1 = f_memberCount g + 1)"
proof (cases "u_familyId u = Some G")
  case True
  then show ?thesis
    using assms by (simp add: updateUserFamily_same)
next
  case False
  then show ?thesis
    using assms
    by (cases "u_familyId u")
       (auto simp: updateUserFamily_def io_defs Let_def split: option.splits)
qed

text \<open>
  C4. A user whose \<open>familyId\<close> already is \<open>F\<close> and who is moved to \<open>F\<close>: no
  family document and no notification changes; the only write is the one to the
  user. So joining the same family \<open>G\<close> twice in a row leaves the second call
  without effect on families and notifications, and the counter of \<open>G\<close> ends
  where it was or one above.
\<close>

theorem updateUserFamily_same_family_idempotent:
  "(\<forall>u. users s U = Some u \<and> u_familyId u = F \<longrightarrow>
      (let r = updateUserFamily U F now nid nnow s; s' = snd r in
         fst r = Inr () \<and> families s' = families s \<and>
         notifications s' = notifications s \<and>
         writes s' = writes s @ [W_update Users U [''familyId'', ''updatedAt'']])) \<and>
   (let s1 = snd (updateUserFamily U (Some G) now1 nid1 nnow1 s);
        s2 = snd (updateUserFamily U (Some G) now2 nid2 nnow2 s1) in
      families s2 = families s1 \<and> notifications s2 = notifications s1 \<and>
      (\<forall>g. families s G = Some g \<longrightarrow>
         (\<exists>g2. families s2 G = Some g2 \<and>
            (f_memberCount g2 = f_memberCount g \<or> f_memberCount g2 = f_memberCount g + 1))))"
proof (intro conjI allI impI)
  fix u assume "users s U = Some u \<and> u_familyId u = F"
  then show "let r = updateUserFamily U F now nid nnow s; s' = snd r in
         fst r = Inr () \<and> families s' = families s \<and>
         notifications s' = notifications s \<and>
         writes s' = writes s @ [W_update Users U [''familyId'', ''updatedAt'']]"
    by (simp add: updateUserFamily_same Let_def)
next
  define s1 where "s1 = snd (updateUserFamily U (Some G) now1 nid1 nnow1 s)"
  define s2 where "s2 = snd (updateUserFamily U (Some G) now2 nid2 nnow2 s1)"
  have second: "families s2 = families s1 \<and> notifications s2 = notifications s1"
  proof (cases "users s U")
    case None
    then have "s1 = s" by (simp add: s1_def updateUserFamily_no_user)
    with None show ?thesis by (simp add: s2_def updateUserFamily_no_user)
  next
    case (Some u)
    then have "users s1 U = Some (u\<lparr>u_familyId := Some G, u_updatedAt := Some now1\<rparr>)"
      by (simp add: s1_def updateUserFamily_user)
    then show ?thesis
      by (simp add: s2_def updateUserFamily_same)
  qed
  have count: "\<exists>g2. families s2 G = Some g2 \<and>
            (f_memberCount g2 = f_memberCount g \<or> f_memberCount g2 = f_memberCount g + 1)"
    if g: "families s G = Some g" for g
  proof (cases "users s U")
    case None
    then have "s1 = s" by (simp add: s1_def updateUserFamily_no_user)
    with second g show ?thesis by simp
  next
    case (Some u)
    from updateUserFamily_joined_count [OF Some g, of now1 nid1 nnow1]
    show ?thesis using second by (simp add: s1_def)
  qed
  show "let s1 = snd (updateUserFamily U (Some G) now1 nid1 nnow1 s);
        s2 = snd (updateUserFamily U (Some G) now2 nid2 nnow2 s1) in
      families s2 = families s1 \<and> notifications s2 = notifications s1 \<and>
      (\<forall>g. families s G = Some g \<longrightarrow>
         (\<exists>g2. families s2 G = Some g2 \<and>
            (f_memberCount g2 = f_memberCount g \<or> f_memberCount g2 = f_memberCount g + 1)))"
    using second count unfolding Let_def s1_def s2_def by blast
qed

theorem updateUserFamily_same_family_idempotent_witness:
  "(let s' = snd (updateUserFamily ''alice'' (Some ''grace'') 7 ''n1'' 8 church) in
      families s' = families church \<and> notifications s' = notifications church) \<and>
   (let s1 = snd (updateUserFamily ''alice'' (Some ''hope'') 7 ''n1'' 8 church);
        s2 = snd (updateUserFamily ''alice'' (Some ''hope'') 9 ''n2'' 10 s1) in
      map_option f_memberCount (families s2 ''hope'') = Some 1)"
  using updateUserFamily_same_family_idempotent [of church "''alice''" "Some ''grace''"
          7 "''n1''" 8 "''hope''" 7 "''n1''" 8 9 "''n2''" 10]
  by (simp add: church_def alice_def grace_def hope_def Let_def updateUserFamily_def io_defs)

section \<open>Promotion and demotion\<close>

text \<open>
  C6. On an existing user, \<open>promoteToAdmin\<close> succeeds and sets the role to
  \<open>Admin\<close> whatever the store holds (it reads no other document), and
  \<open>demoteFromAdmin\<close> sets it to \<open>Member\<close>. Promoting twice gives the role
  promoting once gives, so does demoting; promoting then demoting ends at
  \<open>Member\<close>; demoting a member changes nothing of the user but \<open>updatedAt\<close>.
  No other user and no family changes.
\<close>

theorem promote_demote_role:
  assumes "users s U = Some u"
  shows "let p1 = promoteToAdmin U t1 s; s1 = snd p1;
             p2 = promoteToAdmin U t2 s1; s2 = snd p2;
             d3 = demoteFromAdmin U t3 s1; s3 = snd d3;
             d4 = demoteFromAdmin U t4 s3; s4 = snd d4;
             d0 = demoteFromAdmin U t0 s; s0 = snd d0 in
           fst p1 = Inr () \<and> fst p2 = Inr () \<and> fst d3 = Inr () \<and> fst d4 = Inr () \<and>
           fst d0 = Inr () \<and>
           users s1 U = Some (u\<lparr>u_role := Admin, u_updatedAt := Some t1\<rparr>) \<and>
           users s2 U = Some (u\<lparr>u_role := Admin, u_updatedAt := Some t2\<rparr>) \<and>
           users s3 U = Some (u\<lparr>u_role := Member, u_updatedAt := Some t3\<rparr>) \<and>
           users s4 U = Some (u\<lparr>u_role := Member, u_updatedAt := Some t4\<rparr>) \<and>
           users s0 U = Some (u\<lparr>u_role := Member, u_updatedAt := Some t0\<rparr>) \<and>
           (u_role u = Member \<longrightarrow> users s0 U = Some (u\<lparr>u_updatedAt := Some t0\<rparr>)) \<and>
           (u_role u = Admin \<longrightarrow> users s1 U = Some (u\<lparr>u_updatedAt := Some t1\<rparr>)) \<and>
           (\<forall>V. V \<noteq> U \<longrightarrow> users s1 V = users s V \<and> users s0 V = users s V) \<and>
           families s1 = families s \<and> families s0 = families s"
  using assms by (auto simp: promoteToAdmin_def demoteFromAdmin_def io_defs Let_def)

theorem promote_demote_role_witness:
  "let s1 = snd (promoteToAdmin ''alice'' 5 church);
       s3 = snd (demoteFromAdmin ''alice'' 6 s1);
       s0 = snd (demoteFromAdmin ''bob'' 7 church) in
     map_option u_role (users s1 ''alice'') = Some Admin \<and>
     map_option u_role (users s3 ''alice'') = Some Member \<and>
     users s0 ''bob'' = Some (bob\<lparr>u_updatedAt := Some 7\<rparr>)"
  using promote_demote_role [of church "''alice''" alice 5 5 6 6 7]
    promote_demote_role [of church "''bob''" bob 5 5 6 6 7]
  by (simp add: church_def alice_def bob_def Let_def promoteToAdmin_def demoteFromAdmin_def io_defs)

section \<open>Deleting a user\<close>

text \<open>
  C7. \<open>deleteUser\<close> on an existing user removes the user document; when the
  user's \<open>familyId\<close> names an existing family, that family's counter goes down
  by exactly one and nothing else of the families changes; when the user has no
  \<open>familyId\<close> (\<^verbatim>\<open>null\<close>, absent or empty), no family is written.
\<close>

theorem deleteUser_decrements_family:
  assumes "users s U = Some u"
  shows "let r = deleteUser U s; s' = snd r in
           fst r = Inr () \<and>
           users s' = (users s)(U := None) \<and>
           (\<forall>F f. u_familyId u = Some F \<and> F \<noteq> [] \<and> families s F = Some f \<longrightarrow>
              families s' = (families s)(F \<mapsto> f\<lparr>f_memberCount := f_memberCount f - 1\<rparr>) \<and>
              writes s' = writes s @ [W_update Families F [''memberCount''], W_delete Users U]) \<and>
           (\<not> truthy (u_familyId u) \<longrightarrow>
              families s' = families s \<and> writes s' = writes s @ [W_delete Users U])"
  using assms by (auto simp: deleteUser_def io_defs Let_def split: option.splits)

theorem deleteUser_decrements_family_witness:
  "(let s' = snd (deleteUser ''alice'' church) in
      users s' ''alice'' = None \<and>
      map_option f_memberCount (families s' ''grace'') = Some 0) \<and>
   (let s' = snd (deleteUser ''bob'' church) in
      users s' ''bob'' = None \<and> families s' = families church)"
  using deleteUser_decrements_family [of church "''alice''" alice]
    deleteUser_decrements_family [of church "''bob''" bob]
  by (simp add: church_def alice_def bob_def grace_def Let_def deleteUser_def io_defs)

section \<open>Likes and comments\<close>

lemma likePost_new:
  "posts s P = Some p \<Longrightarrow> U \<notin> set (orElse (p_likes p) []) \<Longrightarrow>
   likePost P U s =
     (Inr (), s\<lparr>posts := (posts s)(P \<mapsto> p\<lparr>p_likes := Some (orElse (p_likes p) [] @ [U])\<rparr>),
                writes := writes s @ [W_update Posts P [''likes'']]\<rparr>)"
  by (simp add: likePost_def io_defs Let_def)

lemma likePost_old:
  "posts s P = Some p \<Longrightarrow> U \<in> set (orElse (p_likes p) []) \<Longrightarrow> likePost P U s = (Inr (), s)"
  by (simp add: likePost_def io_defs Let_def)

lemma unlikePost_post:
  "posts s P = Some p \<Longrightarrow>
   unlikePost P U s =
     (Inr (), s\<lparr>posts := (posts s)(P \<mapsto>
                   p\<lparr>p_likes := Some (filter (\<lambda>uid. uid \<noteq> U) (orElse (p_likes p) []))\<rparr>),
                writes := writes s @ [W_update Posts P [''likes'']]\<rparr>)"
  by (simp add: unlikePost_def io_defs Let_def)

lemma filter_absent: "U \<notin> set xs \<Longrightarrow> filter (\<lambda>uid. uid \<noteq> U) xs = xs"
  by (induction xs) auto

lemma count_list_zero: "U \<notin> set xs \<Longrightarrow> count_list xs U = 0"
  by (induction xs) auto

lemma count_list_pos: "U \<in> set xs \<Longrightarrow> 0 < count_list xs U"
  by (induction xs) auto

lemma likePost_likesOf:
  assumes "posts s P = Some p"
  shows "likesOf (snd (likePost P U s)) P =
           (if U \<in> set (likesOf s P) then likesOf s P else likesOf s P @ [U])"
proof (cases "U \<in> set (orElse (p_likes p) [])")
  case True
  with assms show ?thesis by (simp add: likePost_old likesOf_def)
next
  case False
  with assms show ?thesis by (simp add: likePost_new likesOf_def orElse_def)
qed

lemma unlikePost_likesOf:
  assumes "posts s P = Some p"
  shows "likesOf (snd (unlikePost P U s)) P = filter (\<lambda>uid. uid \<noteq> U) (likesOf s P)"
  using assms by (simp add: unlikePost_post likesOf_def orElse_def)

lemma likePost_keeps_post:
  "posts s P = Some p \<Longrightarrow> \<exists>q. posts (snd (likePost P U s)) P = Some q"
  by (cases "U \<in> set (orElse (p_likes p) [])") (simp_all add: likePost_old likePost_new)

lemma likePost_twice:
  assumes "posts s P = Some p"
  shows "likePost P U (snd (likePost P U s)) = (Inr (), snd (likePost P U s))"
proof (cases "U \<in> set (orElse (p_likes p) [])")
  case True
  with assms show ?thesis by (simp add: likePost_old)
next
  case False
  with assms show ?thesis by (simp add: likePost_new likePost_old orElse_def)
qed

text \<open>
  C5. On an existing post, \<open>likePost\<close> once or twice gives the same store, in
  which the user is among the likes; the user is there exactly once when the
  likes held the user at most once before, as they do when they are kept by
  these operations: both keep a list without duplicates so. \<open>unlikePost\<close> of
  a user who is not among the likes leaves the likes as they are, and after one
  \<open>unlikePost\<close> a second and a third change no post.
\<close>

theorem like_unlike_idempotent:
  assumes "posts s P = Some p"
  shows "let l1 = likePost P U s; s1 = snd l1; l2 = likePost P U s1; s2 = snd l2;
             u1 = unlikePost P U s; r1 = snd u1;
             r2 = snd (unlikePost P U r1); r3 = snd (unlikePost P U r2) in
           fst l1 = Inr () \<and> fst l2 = Inr () \<and> s2 = s1 \<and>
           U \<in> set (likesOf s1 P) \<and>
           (count_list (likesOf s P) U \<le> 1 \<longrightarrow> count_list (likesOf s1 P) U = 1) \<and>
           (distinct (likesOf s P) \<longrightarrow> distinct (likesOf s1 P) \<and> distinct (likesOf r1 P)) \<and>
           fst u1 = Inr () \<and>
           (U \<notin> set (likesOf s P) \<longrightarrow> likesOf r1 P = likesOf s P) \<and>
           (U \<notin> set (likesOf s P) \<longrightarrow> p_likes p \<noteq> None \<longrightarrow> posts r1 = posts s) \<and>
           U \<notin> set (likesOf r1 P) \<and> posts r2 = posts r1 \<and> posts r3 = posts r1"
proof -
  define s1 where "s1 = snd (likePost P U s)"
  define r1 where "r1 = snd (unlikePost P U s)"
  define r2 where "r2 = snd (unlikePost P U r1)"
  define r3 where "r3 = snd (unlikePost P U r2)"
  have l1: "fst (likePost P U s) = Inr ()"
    using assms by (cases "U \<in> set (orElse (p_likes p) [])") (simp_all add: likePost_old likePost_new)
  have l2: "likePost P U s1 = (Inr (), s1)"
    unfolding s1_def using assms by (rule likePost_twice)
  have L: "likesOf s1 P = (if U \<in> set (likesOf s P) then likesOf s P else likesOf s P @ [U])"
    unfolding s1_def using assms by (rule likePost_likesOf)
  have mem: "U \<in> set (likesOf s1 P)" by (simp add: L)
  have cnt: "count_list (likesOf s1 P) U = 1" if "count_list (likesOf s P) U \<le> 1"
  proof (cases "U \<in> set (likesOf s P)")
    case True
    then have "0 < count_list (likesOf s P) U" by (rule count_list_pos)
    with that True show ?thesis by (simp add: L)
  next
    case False
    then show ?thesis by (simp add: L count_list_zero)
  qed
  have R: "likesOf r1 P = filter (\<lambda>uid. uid \<noteq> U) (likesOf s P)"
    unfolding r1_def using assms by (rule unlikePost_likesOf)
  have dist: "distinct (likesOf s1 P) \<and> distinct (likesOf r1 P)" if "distinct (likesOf s P)"
    using that by (simp add: L R)
  have u1: "fst (unlikePost P U s) = Inr ()"
    using assms by (simp add: unlikePost_post)
  have same: "likesOf r1 P = likesOf s P" if "U \<notin> set (likesOf s P)"
    using that by (simp add: R filter_absent)
  have same_post: "posts r1 = posts s" if "U \<notin> set (likesOf s P)" and "p_likes p \<noteq> None"
  proof -
    from that(2) obtain ls where ls: "p_likes p = Some ls" by auto
    with that(1) assms have "U \<notin> set ls" by (simp add: likesOf_def orElse_def)
    then have "filter (\<lambda>uid. uid \<noteq> U) ls = ls" by (rule filter_absent)
    then have fl: "filter (\<lambda>uid. uid \<noteq> U) ls = ls" .
    have "p\<lparr>p_likes := p_likes p\<rparr> = p" by simp
    then have pu: "p\<lparr>p_likes := Some ls\<rparr> = p" by (simp add: ls)
    have "posts r1 = (posts s)(P \<mapsto> p)"
      using assms by (simp add: r1_def unlikePost_post orElse_def ls fl pu)
    with assms show ?thesis by (simp add: fun_upd_idem)
  qed
  have gone: "U \<notin> set (likesOf r1 P)" by (simp add: R)
  obtain q where q: "posts r1 P = Some q"
      and ql: "p_likes q = Some (filter (\<lambda>uid. uid \<noteq> U) (orElse (p_likes p) []))"
    using assms by (simp add: r1_def unlikePost_post)
  have qf: "filter (\<lambda>uid. uid \<noteq> U) (orElse (p_likes q) []) = orElse (p_likes q) []"
    by (simp add: ql orElse_def)
  have "q\<lparr>p_likes := p_likes q\<rparr> = q" by simp
  then have q_upd: "q\<lparr>p_likes := Some (orElse (p_likes q) [])\<rparr> = q"
    by (simp add: ql orElse_def)
  have r2_posts: "posts r2 = posts r1"
    using q by (simp add: r2_def unlikePost_post qf q_upd fun_upd_idem)
  have r3_posts: "posts r3 = posts r1"
    using q r2_posts by (simp add: r3_def unlikePost_post qf q_upd fun_upd_idem)
  show ?thesis
    unfolding Let_def
    using l1 l2 mem cnt dist u1 same same_post gone r2_posts r3_posts
    unfolding s1_def r1_def r2_def r3_def
    by simp
qed

theorem like_unlike_idempotent_witness:
  "likesOf (snd (likePost ''p1'' ''alice'' office)) ''p1'' = [''bob'', ''alice''] \<and>
   likesOf (snd (likePost ''p1'' ''alice'' (snd (likePost ''p1'' ''alice'' office)))) ''p1''
     = [''bob'', ''alice''] \<and>
   posts (snd (unlikePost ''p1'' ''alice'' office)) = posts office"
  using like_unlike_idempotent [of office "''p1''" greeting "''alice''"]
  by (simp add: office_def greeting_def likesOf_def likePost_def unlikePost_def io_defs Let_def)

lemma deleteComment_post:
  "posts s P = Some p \<Longrightarrow>
   deleteComment P cid s =
     (Inr (), s\<lparr>posts := (posts s)(P \<mapsto>
                   p\<lparr>p_comments := Some (filter (\<lambda>c. c_id c \<noteq> cid) (orElse (p_comments p) []))\<rparr>),
                writes := writes s @ [W_update Posts P [''comments'']]\<rparr>)"
  by (simp add: deleteComment_def io_defs Let_def)

lemma addComment_post:
  "posts s P = Some p \<Longrightarrow>
   addComment P cmt dateNow created s =
     (Inr (), s\<lparr>posts := (posts s)(P \<mapsto>
                   p\<lparr>p_comments := Some (orElse (p_comments p) [] @
                      [\<lparr>c_id = string_of_nat dateNow, c_authorId = cd_authorId cmt,
                        c_authorName = cd_authorName cmt, c_content = cd_content cmt,
                        c_createdAt = created\<rparr>])\<rparr>),
                writes := writes s @ [W_update Posts P [''comments'']]\<rparr>)"
  by (simp add: addComment_def io_defs Let_def)

lemma deleteComment_commentsOf:
  "posts s P = Some p \<Longrightarrow>
   commentsOf (snd (deleteComment P cid s)) P = filter (\<lambda>c. c_id c \<noteq> cid) (commentsOf s P)"
  by (simp add: deleteComment_post commentsOf_def orElse_def)

lemma addComment_commentsOf:
  "posts s P = Some p \<Longrightarrow>
   commentsOf (snd (addComment P cmt dateNow created s)) P =
     commentsOf s P @
       [\<lparr>c_id = string_of_nat dateNow, c_authorId = cd_authorId cmt,
         c_authorName = cd_authorName cmt, c_content = cd_content cmt,
         c_createdAt = created\<rparr>]"
  by (simp add: addComment_post commentsOf_def orElse_def)

lemma addComment_keeps_post:
  "posts s P = Some p \<Longrightarrow> \<exists>q. posts (snd (addComment P cmt dateNow created s)) P = Some q"
  by (simp add: addComment_post)

lemma count_list_filter_keep:
  "Q c \<Longrightarrow> count_list (filter Q xs) c = count_list xs c"
  by (induction xs) auto

text \<open>
  C9. \<open>deleteComment\<close> on an existing post keeps exactly the comments whose
  id differs from the one given, in their order: none with that id is left,
  every other comment occurs as often as before, and what is left is a
  subsequence of what was there. Two comments added at the same clock value
  \<open>t\<close> get the same id, and one \<open>deleteComment\<close> of that id removes both.
\<close>

theorem deleteComment_removes_all_with_id:
  assumes "posts s P = Some p"
  shows "let d = deleteComment P cid s; s' = snd d;
             a1 = snd (addComment P cmt1 t created1 s);
             a2 = snd (addComment P cmt2 t created2 a1);
             a3 = snd (deleteComment P (string_of_nat t) a2) in
           fst d = Inr () \<and>
           commentsOf s' P = filter (\<lambda>c. c_id c \<noteq> cid) (commentsOf s P) \<and>
           (\<forall>c \<in> set (commentsOf s' P). c_id c \<noteq> cid) \<and>
           (\<forall>c. c_id c \<noteq> cid \<longrightarrow> count_list (commentsOf s' P) c = count_list (commentsOf s P) c) \<and>
           subseq (commentsOf s' P) (commentsOf s P) \<and>
           length (commentsOf a2 P) = length (commentsOf s P) + 2 \<and>
           commentsOf a3 P = filter (\<lambda>c. c_id c \<noteq> string_of_nat t) (commentsOf s P)"
proof -
  define s' where "s' = snd (deleteComment P cid s)"
  define a1 where "a1 = snd (addComment P cmt1 t created1 s)"
  define a2 where "a2 = snd (addComment P cmt2 t created2 a1)"
  define a3 where "a3 = snd (deleteComment P (string_of_nat t) a2)"
  have ok: "fst (deleteComment P cid s) = Inr ()"
    using assms by (simp add: deleteComment_post)
  have D: "commentsOf s' P = filter (\<lambda>c. c_id c \<noteq> cid) (commentsOf s P)"
    unfolding s'_def using assms by (rule deleteComment_commentsOf)
  have none: "\<forall>c \<in> set (commentsOf s' P). c_id c \<noteq> cid"
    by (simp add: D)
  have keep: "\<forall>c. c_id c \<noteq> cid \<longrightarrow> count_list (commentsOf s' P) c = count_list (commentsOf s P) c"
    by (simp add: D count_list_filter_keep)
  have sub: "subseq (commentsOf s' P) (commentsOf s P)"
    by (simp add: D)
  obtain q1 where q1: "posts a1 P = Some q1"
    using addComment_keeps_post [OF assms] unfolding a1_def by blast
  obtain q2 where q2: "posts a2 P = Some q2"
    using addComment_keeps_post [OF q1] unfolding a2_def by blast
  have A1: "commentsOf a1 P = commentsOf s P @
       [\<lparr>c_id = string_of_nat t, c_authorId = cd_authorId cmt1,
         c_authorName = cd_authorName cmt1, c_content = cd_content cmt1,
         c_createdAt = created1\<rparr>]"
    unfolding a1_def using assms by (rule addComment_commentsOf)
  have A2: "commentsOf a2 P = commentsOf a1 P @
       [\<lparr>c_id = string_of_nat t, c_authorId = cd_authorId cmt2,
         c_authorName = cd_authorName cmt2, c_content = cd_content cmt2,
         c_createdAt = created2\<rparr>]"
    unfolding a2_def using q1 by (rule addComment_commentsOf)
  have len: "length (commentsOf a2 P) = length (commentsOf s P) + 2"
    by (simp add: A1 A2)
  have "commentsOf a3 P = filter (\<lambda>c. c_id c \<noteq> string_of_nat t) (commentsOf a2 P)"
    unfolding a3_def using q2 by (rule deleteComment_commentsOf)
  then have both: "commentsOf a3 P = filter (\<lambda>c. c_id c \<noteq> string_of_nat t) (commentsOf s P)"
    by (simp add: A1 A2)
  show ?thesis
    unfolding Let_def
    using ok D none keep sub len both
    unfolding s'_def a1_def a2_def a3_def
    by simp
qed

theorem deleteComment_removes_all_with_id_witness:
  "map c_content (commentsOf (snd (deleteComment ''p1'' ''1700'' office)) ''p1'') = [''Thanks'']"
  using deleteComment_removes_all_with_id [of office "''p1''" greeting "''1700''"]
  by (simp add: office_def greeting_def commentsOf_def deleteComment_def io_defs Let_def)

text \<open>
  C10. \<open>likePost\<close> and \<open>unlikePost\<close> on an existing post leave every property
  of the post but \<open>likes\<close> as it was, and every other post and every other
  collection too. \<open>unlikePost\<close> always writes the \<open>likes\<close> of the post, also
  for a user who did not like it; \<open>likePost\<close> writes only for a new liker.
\<close>

theorem like_unlike_frame:
  assumes "posts s P = Some p"
  shows "let l = snd (likePost P U s); u = snd (unlikePost P U s) in
           (\<exists>q. posts l P = Some q \<and> sameButLikes p q) \<and>
           (\<exists>q. posts u P = Some q \<and> sameButLikes p q) \<and>
           (\<forall>Q. Q \<noteq> P \<longrightarrow> posts l Q = posts s Q \<and> posts u Q = posts s Q) \<and>
           users l = users s \<and> families l = families s \<and>
           notifications l = notifications s \<and> familyRequests l = familyRequests s \<and>
           adminRequests l = adminRequests s \<and>
           users u = users s \<and> families u = families s \<and>
           notifications u = notifications s \<and> familyRequests u = familyRequests s \<and>
           adminRequests u = adminRequests s \<and>
           writes u = writes s @ [W_update Posts P [''likes'']] \<and>
           (U \<in> set (likesOf s P) \<longrightarrow> writes l = writes s) \<and>
           (U \<notin> set (likesOf s P) \<longrightarrow> writes l = writes s @ [W_update Posts P [''likes'']])"
proof (cases "U \<in> set (orElse (p_likes p) [])")
  case True
  with assms show ?thesis
    by (simp add: Let_def likePost_old unlikePost_post sameButLikes_def likesOf_def)
next
  case False
  with assms show ?thesis
    by (simp add: Let_def likePost_new unlikePost_post sameButLikes_def likesOf_def)
qed

theorem like_unlike_frame_witness:
  "writes (snd (unlikePost ''p1'' ''alice'' office)) = [W_update Posts ''p1'' [''likes'']] \<and>
   writes (snd (likePost ''p1'' ''bob'' office)) = [] \<and>
   map_option p_comments (posts (snd (likePost ''p1'' ''alice'' office)) ''p1'')
     = Some (p_comments greeting)"
  using like_unlike_frame [of office "''p1''" greeting "''alice''"]
    like_unlike_frame [of office "''p1''" greeting "''bob''"]
  by (simp add: office_def greeting_def likesOf_def likePost_def unlikePost_def io_defs Let_def)

section \<open>Reviewing requests\<close>


text \<open>
  Overrides with a property whose value is \<^verbatim>\<open>undefined\<close>, as the dashboards
  send them: the request is marked approved, then \<^verbatim>\<open>addDoc\<close> refuses the
  document; the call fails and no family is created.
\<close>

lemma approveFamilyRequest_undefined_imageUrl:
  "fst (approveFamilyRequest ''r1'' (Some joy_as_sent) 9 ''f1'' 10 office)
     = Inl (Invalid_argument Families) \<and>
   map_option fr_status
     (familyRequests (snd (approveFamilyRequest ''r1'' (Some joy_as_sent) 9 ''f1'' 10 office))
        ''r1'') = Some Approved \<and>
   families (snd (approveFamilyRequest ''r1'' (Some joy_as_sent) 9 ''f1'' 10 office))
     = families office"
  by (simp add: office_def petition_def joy_as_sent_def
      approveFamilyRequest_def createFamily_def io_defs Let_def)




lemma reviewAdminRequest_approved:
  assumes "adminRequests s R = Some a" and "users s (ar_userId a) = Some u"
  shows "reviewAdminRequest R R_approved reviewer reviewed now s =
           (Inr (),
            s\<lparr>adminRequests := (adminRequests s)
                 (R \<mapsto> a\<lparr>ar_status := Approved, ar_reviewedAt := Some reviewed,
                          ar_reviewedBy := Some reviewer\<rparr>),
              users := (users s)(ar_userId a \<mapsto> u\<lparr>u_role := Admin, u_updatedAt := Some now\<rparr>),
              writes := writes s @
                [W_update AdminRequests R [''status'', ''reviewedAt'', ''reviewedBy''],
                 W_update Users (ar_userId a) [''role'', ''updatedAt'']]\<rparr>)"
  using assms by (simp add: reviewAdminRequest_def io_defs)

lemma reviewAdminRequest_rejected:
  assumes "adminRequests s R = Some a"
  shows "reviewAdminRequest R R_rejected reviewer reviewed now s =
           (Inr (),
            s\<lparr>adminRequests := (adminRequests s)
                 (R \<mapsto> a\<lparr>ar_status := Rejected, ar_reviewedAt := Some reviewed,
                          ar_reviewedBy := Some reviewer\<rparr>),
              writes := writes s @
                [W_update AdminRequests R [''status'', ''reviewedAt'', ''reviewedBy'']]\<rparr>)"
  using assms by (simp add: reviewAdminRequest_def io_defs)

lemma reviewAdminRequest_once:
  assumes "adminRequests s R = Some a" and "users s (ar_userId a) = Some u"
  shows "fst (reviewAdminRequest R d reviewer reviewed now s) = Inr ()"
    and "adminRequests (snd (reviewAdminRequest R d reviewer reviewed now s)) =
           (adminRequests s)
             (R \<mapsto> a\<lparr>ar_status := decisionStatus d, ar_reviewedAt := Some reviewed,
                      ar_reviewedBy := Some reviewer\<rparr>)"
    and "users (snd (reviewAdminRequest R d reviewer reviewed now s)) =
           (if d = R_approved
            then (users s)(ar_userId a \<mapsto> u\<lparr>u_role := Admin, u_updatedAt := Some now\<rparr>)
            else users s)"
  using assms
  by (cases d; simp add: reviewAdminRequest_approved reviewAdminRequest_rejected)+

text \<open>
  C3, as the code has it. \<open>reviewAdminRequest\<close> on an existing request for an
  existing user succeeds and records status, review time and reviewer; when the
  decision is to approve, it sets the user's role to \<open>Admin\<close>, otherwise it
  leaves the users alone. This holds whatever status the request had: a further
  review of the reviewed request succeeds too and overwrites the three
  properties, and promotes the user when it approves.
\<close>

theorem reviewAdminRequest_records_every_review:
  assumes "adminRequests s R = Some a" and "users s (ar_userId a) = Some u"
  shows "let r1 = reviewAdminRequest R d reviewer reviewed now s; s1 = snd r1;
             r2 = reviewAdminRequest R d2 reviewer2 reviewed2 now2 s1; s2 = snd r2 in
           fst r1 = Inr () \<and>
           adminRequests s1 = (adminRequests s)
             (R \<mapsto> a\<lparr>ar_status := decisionStatus d, ar_reviewedAt := Some reviewed,
                      ar_reviewedBy := Some reviewer\<rparr>) \<and>
           users s1 =
             (if d = R_approved
              then (users s)(ar_userId a \<mapsto> u\<lparr>u_role := Admin, u_updatedAt := Some now\<rparr>)
              else users s) \<and>
           fst r2 = Inr () \<and>
           adminRequests s2 = (adminRequests s)
             (R \<mapsto> a\<lparr>ar_status := decisionStatus d2, ar_reviewedAt := Some reviewed2,
                      ar_reviewedBy := Some reviewer2\<rparr>) \<and>
           (d2 = R_approved \<longrightarrow>
              map_option u_role (users s2 (ar_userId a)) = Some Admin \<and>
              map_option u_updatedAt (users s2 (ar_userId a)) = Some (Some now2))"
proof -
  define a1 where "a1 = a\<lparr>ar_status := decisionStatus d, ar_reviewedAt := Some reviewed,
                      ar_reviewedBy := Some reviewer\<rparr>"
  define s1 where "s1 = snd (reviewAdminRequest R d reviewer reviewed now s)"
  note first = reviewAdminRequest_once [OF assms, of d reviewer reviewed now, folded s1_def]
  have A1: "adminRequests s1 R = Some a1" by (simp add: first(2) a1_def)
  obtain u1 where U1: "users s1 (ar_userId a1) = Some u1"
    using assms(2) by (cases d) (simp_all add: first(3) a1_def)
  define s2 where "s2 = snd (reviewAdminRequest R d2 reviewer2 reviewed2 now2 s1)"
  note second = reviewAdminRequest_once [OF A1 U1, of d2 reviewer2 reviewed2 now2, folded s2_def]
  have req2: "adminRequests s2 = (adminRequests s)
             (R \<mapsto> a\<lparr>ar_status := decisionStatus d2, ar_reviewedAt := Some reviewed2,
                      ar_reviewedBy := Some reviewer2\<rparr>)"
    by (simp add: second(2) first(2) a1_def)
  have role2: "map_option u_role (users s2 (ar_userId a)) = Some Admin \<and>
               map_option u_updatedAt (users s2 (ar_userId a)) = Some (Some now2)"
    if "d2 = R_approved"
    using that by (simp add: second(3) a1_def)
  show ?thesis
    unfolding Let_def
    using first(1) first(2) first(3) second(1) req2 role2
    unfolding s1_def s2_def
    by simp
qed

theorem reviewAdminRequest_records_every_review_witness:
  "map_option ar_status (adminRequests office_reviewed ''a1'') = Some Rejected \<and>
   map_option ar_reviewedBy (adminRequests office_reviewed ''a1'') = Some (Some ''super_admin'') \<and>
   users office_reviewed = users office"
  using reviewAdminRequest_records_every_review
          [of office "''a1''" application bob R_rejected "''super_admin''" 9 10
             R_approved "''root''" 11 12]
  by (simp add: office_reviewed_def office_def application_def bob_def
      reviewAdminRequest_def io_defs Let_def)

text \<open>
  C3 as stated fails: the request \<open>a1\<close> is rejected in \<open>office_reviewed\<close>; a
  further review that approves it succeeds, changes the request and makes Bob
  an admin.
\<close>

theorem reviewAdminRequest_again_counterexample:
  "map_option ar_status (adminRequests office_reviewed ''a1'') = Some Rejected \<and>
   map_option u_role (users office_reviewed ''bob'') = Some Member \<and>
   fst (reviewAdminRequest ''a1'' R_approved ''root'' 11 12 office_reviewed) = Inr () \<and>
   map_option ar_status
     (adminRequests (snd (reviewAdminRequest ''a1'' R_approved ''root'' 11 12 office_reviewed))
        ''a1'') = Some Approved \<and>
   map_option u_role
     (users (snd (reviewAdminRequest ''a1'' R_approved ''root'' 11 12 office_reviewed))
        ''bob'') = Some Admin"
  by (simp add: office_reviewed_def office_def application_def bob_def
      reviewAdminRequest_def io_defs Let_def)

section \<open>The family of a signed-up user\<close>

lemma signup_result:
  "signup uid email displayName isAdmin now nid nnow s =
     (Inr \<lparr>u_id = uid, u_email = email, u_displayName = displayName,
           u_role = (if isAdmin then Admin else Member), u_phoneNumber = Some [],
           u_familyId = Some [], u_createdAt = now, u_updatedAt = None\<rparr>,
      s\<lparr>users := (users s)(uid \<mapsto>
           \<lparr>u_id = uid, u_email = email, u_displayName = displayName,
            u_role = (if isAdmin then Admin else Member), u_phoneNumber = Some [],
            u_familyId = Some [], u_createdAt = now,
            u_updatedAt = (case users s uid of None \<Rightarrow> None | Some d \<Rightarrow> u_updatedAt d)\<rparr>),
        writes := writes s @ [W_set Users uid]\<rparr>)"
  by (cases "users s uid") (simp_all add: signup_def createUserProfile_def io_defs Let_def)

lemma updateUserFamily_missing:
  "users s U = None \<Longrightarrow> snd (updateUserFamily U F now nid nnow s) = s"
  by (simp add: updateUserFamily_def io_defs)

lemma updateUserFamily_users:
  "users s U = Some u \<Longrightarrow>
   users (snd (updateUserFamily U F now nid nnow s)) =
     (users s)(U \<mapsto> u\<lparr>u_familyId := F, u_updatedAt := Some now\<rparr>)"
  by (cases F; cases "u_familyId u")
     (simp_all add: updateUserFamily_def io_defs Let_def split: option.splits)

lemma updateUserFamily_families_dom:
  "(families (snd (updateUserFamily U F now nid nnow s)) G = None) = (families s G = None)"
proof (cases "users s U")
  case None
  then show ?thesis by (simp add: updateUserFamily_missing)
next
  case (Some u)
  then show ?thesis
    by (cases F; cases "u_familyId u")
       (auto simp: updateUserFamily_def io_defs Let_def split: option.splits)
qed

lemma familyInvariant_updateUserFamily:
  assumes "familyInvariant s" and "case F of None \<Rightarrow> True | Some G \<Rightarrow> families s G \<noteq> None"
  shows "familyInvariant (snd (updateUserFamily U F now nid nnow s))"
proof (cases "users s U")
  case None
  with assms(1) show ?thesis by (simp add: updateUserFamily_missing)
next
  case (Some u)
  show ?thesis
    unfolding familyInvariant_def unassignedOrExisting_def
    using assms Some
    by (auto simp: updateUserFamily_users updateUserFamily_families_dom
          familyInvariant_def unassignedOrExisting_def split: option.splits if_splits)
qed

lemma familyInvariant_signup:
  assumes "familyInvariant s"
  shows "familyInvariant (snd (signup uid email displayName isAdmin now nid nnow s))"
  using assms
  by (auto simp: signup_result familyInvariant_def unassignedOrExisting_def split: option.splits)

lemma familyInvariant_perform:
  assumes "familyInvariant s" and "offered a s"
  shows "familyInvariant (perform a s)"
proof (cases a)
  case (Signup uid email displayName isAdmin now nid nnow)
  with assms(1) show ?thesis by (simp add: familyInvariant_signup)
next
  case (JoinFamily uid F now nid nnow)
  with assms show ?thesis
    by (simp add: handleJoinFamily_def ok_def familyInvariant_updateUserFamily)
next
  case (RemoveMember uid now nid nnow)
  with assms(1) show ?thesis
    by (simp add: removeMemberFromFamily_def familyInvariant_updateUserFamily)
qed

lemma familyInvariant_performAll:
  "familyInvariant s \<Longrightarrow> performAll as s = Some s' \<Longrightarrow> familyInvariant s'"
proof (induction as arbitrary: s)
  case Nil
  then show ?case by simp
next
  case (Cons a as)
  from Cons.prems(2) have off: "offered a s" and rest: "performAll as (perform a s) = Some s'"
    by (simp_all split: if_splits)
  from Cons.prems(1) off have "familyInvariant (perform a s)"
    by (rule familyInvariant_perform)
  then show ?case using rest by (rule Cons.IH)
qed

text \<open>
  C8, as the code has it. \<open>signup\<close> stores the empty string as \<open>familyId\<close>,
  which is how the code writes "unassigned", with the role asked for, and
  touches no family and no notification. From a store in which every member and
  admin has a \<open>familyId\<close> that is unassigned (\<^verbatim>\<open>null\<close>, absent or empty) or names
  an existing family, every sequence of sign-ups, joins of a family the store
  has, and removals leads to such a store again.
\<close>

theorem signup_unassigned_and_familyInvariant_kept:
  "(let s1 = snd (signup uid email displayName isAdmin now nid nnow s) in
      map_option u_familyId (users s1 uid) = Some (Some []) \<and>
      map_option u_role (users s1 uid) = Some (if isAdmin then Admin else Member) \<and>
      families s1 = families s \<and> notifications s1 = notifications s) \<and>
   (familyInvariant s \<longrightarrow> (\<forall>s'. performAll as s = Some s' \<longrightarrow> familyInvariant s'))"
  by (auto simp: signup_result Let_def dest: familyInvariant_performAll)

theorem signup_unassigned_and_familyInvariant_kept_witness:
  "familyInvariant church \<and> performAll story church = Some church_later \<and>
   familyInvariant church_later"
proof -
  have inv: "familyInvariant church"
    by (auto simp: familyInvariant_def unassignedOrExisting_def church_def alice_def bob_def
        split: if_splits)
  have run: "performAll story church = Some church_later"
    by (simp add: story_def church_later_def signup_result church_def)
  show ?thesis
    using inv run
      signup_unassigned_and_familyInvariant_kept
        [of "''carol''" "''carol@example.org''" "''Carol''" False 9 "''n9''" 10 church story]
    by blast
qed

text \<open>
  C8 as stated fails: Carol, signed up as a member, has a stored \<open>familyId\<close>
  that is the empty string, not \<^verbatim>\<open>null\<close>, and no family has that identifier.
\<close>

theorem signup_stores_empty_familyId_counterexample:
  "map_option u_role (users church_signed ''carol'') = Some Member \<and>
   map_option u_familyId (users church_signed ''carol'') = Some (Some []) \<and>
   families church_signed [] = None"
  by (simp add: church_signed_def signup_result church_def)

end
